theory Spec2Isabelle
  imports Main "HOL-Library.Word"
begin

section \<open>The process launcher: simpleGetPlugin.cc\<close>

subsection \<open>Message constants\<close>

text \<open>
  The three \<^verbatim>\<open>#define\<close>d status messages, character for character (the second one
  is spelled "sytem" in the source).
\<close>

definition MSG_OK :: string where
  "MSG_OK = ''''"

definition MSG_NO_COMMAND_PROCESSOR :: string where
  "MSG_NO_COMMAND_PROCESSOR = ''the sytem does not support command invocation''"

definition MSG_INVALID_COMMAND :: string where
  "MSG_INVALID_COMMAND = ''invalid command''"

subsection \<open>Build target and operating system\<close>

text \<open>
  The body of \<^verbatim>\<open>callApplication\<close> is selected by the preprocessor: one block under
  \<^verbatim>\<open>#ifdef OS_WINDOWS\<close>, one under \<^verbatim>\<open>#if defined OS_LINUX || defined OS_MACOSX\<close>.
  The two tests are independent of each other, so a build target is the set of macros it
  defines.
\<close>

record build_target =
  OS_WINDOWS :: bool
  OS_LINUX :: bool
  OS_MACOSX :: bool

text \<open>
  The two calls into the operating system. \<^verbatim>\<open>CreateProcess\<close> is called with ten
  arguments; the first two are the application name and the command line, the next six are
  the constant \<^verbatim>\<open>NULL\<close> and the last two point to the zeroed \<^verbatim>\<open>StartInfo\<close> (with its
  \<^verbatim>\<open>cb\<close> set) and \<^verbatim>\<open>ProcInfo\<close> locals. Only the first two vary with the input, and only
  they are kept. \<^verbatim>\<open>system\<close> takes the command string.
\<close>

datatype os_call =
  is_CreateProcess: CreateProcess (lpApplicationName: string) (lpCommandLine: string)
| is_system: system (command: string)

text \<open>
  What the operating system answers to a call: the \<^verbatim>\<open>BOOL\<close> of \<^verbatim>\<open>CreateProcess\<close>
  (zero when the process was not created), the status that \<^verbatim>\<open>system\<close> returns.
  Every call is taken to come back with an answer.
\<close>

type_synonym os = "os_call \<Rightarrow> int"

definition spawn_succeeds :: os where
  "spawn_succeeds c = (case c of CreateProcess a p \<Rightarrow> 1 | system s \<Rightarrow> 0)"

definition spawn_fails :: os where
  "spawn_fails c = (case c of CreateProcess a p \<Rightarrow> 0 | system s \<Rightarrow> - 1)"

definition windows_target :: build_target where
  "windows_target = \<lparr>OS_WINDOWS = True, OS_LINUX = False, OS_MACOSX = False\<rparr>"

definition linux_target :: build_target where
  "linux_target = \<lparr>OS_WINDOWS = False, OS_LINUX = True, OS_MACOSX = False\<rparr>"

definition macosx_target :: build_target where
  "macosx_target = \<lparr>OS_WINDOWS = False, OS_LINUX = False, OS_MACOSX = True\<rparr>"

subsection \<open>callApplication\<close>

text \<open>
  A call returns a string to the plugin host and leaves a trace in the operating system:
  the calls made, in order, each with the answer it got. The source drops every answer.
\<close>

record launched =
  returned :: string
  os_trace :: "(os_call \<times> int) list"

text \<open>
  \<^verbatim>\<open>std::string::c_str()\<close>. A \<^verbatim>\<open>std::string\<close> is a sequence of \<^verbatim>\<open>char\<close> of any
  value; \<^verbatim>\<open>c_str()\<close> points to those characters followed by a terminating NUL.
  \<^verbatim>\<open>CreateProcess\<close> and \<^verbatim>\<open>system\<close> take C strings, which end at the first NUL, so
  what they are given is the part of the \<^verbatim>\<open>std::string\<close> before its first NUL
  character, all of it when it has none.
\<close>

definition c_str :: "string \<Rightarrow> string" where
  "c_str s = takeWhile (\<lambda>c. c \<noteq> CHR 0x00) s"

text \<open>
  \<^verbatim>\<open>std::string SimpleGetPlugin::callApplication(std::string application,
  std::string parameters)\<close>. The two tests that would return the other messages are
  comments in the source and so are no part of the function. The Windows block assigns to
  the by-value argument \<^verbatim>\<open>parameters\<close>; the POSIX block reads that variable afterwards,
  which the model threads through.
\<close>

definition callApplication :: "build_target \<Rightarrow> os \<Rightarrow> string \<Rightarrow> string \<Rightarrow> launched" where
  "callApplication target os application parameters =
     (let (parameters, tr) =
            (if OS_WINDOWS target
             then (let parameters = '' '' @ parameters;
                       c = CreateProcess (c_str application) (c_str parameters)
                   in (parameters, [(c, os c)]))
             else (parameters, []));
          tr = (if OS_LINUX target \<or> OS_MACOSX target
                then (let c = system (c_str (application @ '' '' @ parameters @ '' &''))
                      in tr @ [(c, os c)])
                else tr)
      in \<lparr>returned = MSG_OK, os_trace = tr\<rparr>)"

text \<open>The calls made to the operating system, without the answers.\<close>

definition os_calls :: "launched \<Rightarrow> os_call list" where
  "os_calls l = map fst (os_trace l)"

section \<open>The NPAPI entry points: plugin.cc\<close>

subsection \<open>NP_GetMIMEDescription\<close>

text \<open>
  \<^verbatim>\<open>const char *NP_GetMIMEDescription(void)\<close> takes nothing and returns a string
  literal (the word "extesion" is the source's spelling).
\<close>

definition NP_GetMIMEDescription :: string where
  "NP_GetMIMEDescription =
     ''application/x-simplegetplugin::Connects the Simple Get extesion to the download managers''"

text \<open>
  Not a function of the source: the reading of a MIME description that the specification
  uses, the segment of the string before the first occurrence of the two characters
  \<^verbatim>\<open>::\<close> (the whole string when they do not occur).
\<close>

fun segment_before_separator :: "string \<Rightarrow> string" where
  "segment_before_separator (c # d # cs) =
     (if c = CHR '':'' \<and> d = CHR '':'' then []
      else c # segment_before_separator (d # cs))"
| "segment_before_separator cs = cs"

subsection \<open>NP_GetValue\<close>

text \<open>
  \<^verbatim>\<open>NPPVariable\<close> and \<^verbatim>\<open>NPError\<close> are declared in \<^verbatim>\<open>npapi.h\<close>, a header of the
  browser's plugin SDK that is not among the sources. The \<^verbatim>\<open>switch\<close> names two
  enumerators of \<^verbatim>\<open>NPPVariable\<close>; every other value the host can pass, whatever its
  number, takes the \<^verbatim>\<open>default\<close> label and is \<open>NPPVother\<close> here. Of \<^verbatim>\<open>NPError\<close> the
  function returns two codes.
\<close>

datatype NPPVariable =
  NPPVpluginNameString
| NPPVpluginDescriptionString
| NPPVother nat

datatype NPError = NPERR_NO_ERROR | NPERR_INVALID_PARAM

text \<open>
  The host's memory, as far as the function touches it: the cells that can hold a
  \<^verbatim>\<open>const char *\<close>, by address, each with the C string its pointer leads to. An
  address outside the domain is no live cell (the null pointer, a dangling one); the
  source stores through \<^verbatim>\<open>value\<close> without a test, which is undefined behaviour there
  and \<open>None\<close> in the model.
\<close>

type_synonym addr = nat

type_synonym memory = "addr \<rightharpoonup> string"

definition store_string :: "memory \<Rightarrow> addr \<Rightarrow> string \<Rightarrow> memory option" where
  "store_string mem p s = (if p \<in> dom mem then Some (mem(p \<mapsto> s)) else None)"

text \<open>
  \<^verbatim>\<open>NPError NP_GetValue(NPP instance, NPPVariable variable, void *value)\<close>. The
  argument \<^verbatim>\<open>instance\<close> is not used. The two named cases store and \<^verbatim>\<open>break\<close> to the
  final \<^verbatim>\<open>return NPERR_NO_ERROR\<close>; the \<^verbatim>\<open>default\<close> label returns at once.
\<close>

definition NP_GetValue :: "addr \<Rightarrow> NPPVariable \<Rightarrow> addr \<Rightarrow> memory \<Rightarrow> (NPError \<times> memory) option" where
  "NP_GetValue instance variable value mem =
     (case variable of
        NPPVpluginNameString \<Rightarrow>
          (case store_string mem value ''Simple Get Plugin'' of
             None \<Rightarrow> None
           | Some mem' \<Rightarrow> Some (NPERR_NO_ERROR, mem'))
      | NPPVpluginDescriptionString \<Rightarrow>
          (case store_string mem value
                  ''Connects the Simple Get extesion to the download managers'' of
             None \<Rightarrow> None
           | Some mem' \<Rightarrow> Some (NPERR_NO_ERROR, mem'))
      | NPPVother n \<Rightarrow> Some (NPERR_INVALID_PARAM, mem))"

section \<open>The binding example: complex.h\<close>

text \<open>
  A \<^verbatim>\<open>float\<close> is taken as its 32-bit pattern. The constructors and the four accessors
  below only store and load the two members, they compute nothing with them, so the
  pattern is all that matters; \<^verbatim>\<open>0.f\<close> is the pattern of all zeros. The members are
  \<^verbatim>\<open>real_\<close> and \<^verbatim>\<open>imaginary_\<close> in the source, names that cannot end in an underscore
  here.
\<close>

type_synonym float = "32 word"

record Complex =
  real_field :: float
  imaginary_field :: float

definition Complex_default :: Complex where
  "Complex_default = \<lparr>real_field = 0, imaginary_field = 0\<rparr>"

definition Complex_of :: "float \<Rightarrow> float \<Rightarrow> Complex" where
  "Complex_of real imaginary = \<lparr>real_field = real, imaginary_field = imaginary\<rparr>"

definition real :: "Complex \<Rightarrow> float" where
  "real c = real_field c"

definition set_real :: "Complex \<Rightarrow> float \<Rightarrow> Complex" where
  "set_real c value = c\<lparr>real_field := value\<rparr>"

definition imaginary :: "Complex \<Rightarrow> float" where
  "imaginary c = imaginary_field c"

definition set_imaginary :: "Complex \<Rightarrow> float \<Rightarrow> Complex" where
  "set_imaginary c value = c\<lparr>imaginary_field := value\<rparr>"

section \<open>Theorems about the process launcher\<close>

text \<open>
  C1. For every application string and every parameters string, also an application path
  that names no binary and an empty parameters string, \<^verbatim>\<open>callApplication\<close> returns the
  empty string, on every build target and whatever the operating system answers to the
  spawn.
\<close>

theorem callApplication_returns_empty:
  "returned (callApplication target os application parameters) = ''''
   \<and> returned (callApplication target spawn_fails ''/nonexistent/binary'' '''') = ''''"
  by (simp add: callApplication_def MSG_OK_def Let_def split: prod.split)

lemma c_str_no_nul:
  "CHR 0x00 \<notin> set s \<Longrightarrow> c_str s = s"
  by (auto simp add: c_str_def)

lemma c_str_cut:
  "CHR 0x00 \<notin> set s \<Longrightarrow> c_str (s @ CHR 0x00 # t) = s"
  by (induction s) (auto simp add: c_str_def)

text \<open>
  C2, as amended. On a POSIX-family target (one that defines \<^verbatim>\<open>OS_LINUX\<close> or
  \<^verbatim>\<open>OS_MACOSX\<close> and not \<^verbatim>\<open>OS_WINDOWS\<close>) the one call made to the operating system is
  \<^verbatim>\<open>system\<close>; its command is the C string of the application, a space, the parameters,
  a space and an ampersand, and for every application and parameters string without a NUL
  character that is the whole concatenation.
\<close>

theorem callApplication_posix_command:
  assumes "\<not> OS_WINDOWS target" and "OS_LINUX target \<or> OS_MACOSX target"
  shows "os_calls (callApplication target os application parameters)
           = [system (c_str (application @ '' '' @ parameters @ '' &''))]
         \<and> (CHR 0x00 \<notin> set application \<and> CHR 0x00 \<notin> set parameters
            \<longrightarrow> os_calls (callApplication target os application parameters)
                = [system (application @ '' '' @ parameters @ '' &'')])"
proof -
  have calls: "os_calls (callApplication target os application parameters)
                 = [system (c_str (application @ '' '' @ parameters @ '' &''))]"
    using assms by (auto simp add: callApplication_def os_calls_def Let_def)
  have "c_str (application @ '' '' @ parameters @ '' &'')
          = application @ '' '' @ parameters @ '' &''"
    if "CHR 0x00 \<notin> set application" and "CHR 0x00 \<notin> set parameters"
    using that by (intro c_str_no_nul) simp
  with calls show ?thesis by simp
qed

theorem callApplication_posix_command_witness:
  "\<not> OS_WINDOWS linux_target \<and> (OS_LINUX linux_target \<or> OS_MACOSX linux_target)
   \<and> CHR 0x00 \<notin> set ''firefox'' \<and> CHR 0x00 \<notin> set ''-url http://example.com''
   \<and> os_calls (callApplication linux_target spawn_succeeds ''firefox'' ''-url http://example.com'')
       = [system ''firefox -url http://example.com &'']
   \<and> \<not> OS_WINDOWS macosx_target \<and> (OS_LINUX macosx_target \<or> OS_MACOSX macosx_target)
   \<and> os_calls (callApplication macosx_target spawn_fails ''firefox'' ''-url http://example.com'')
       = [system ''firefox -url http://example.com &'']"
proof -
  have w: "\<not> OS_WINDOWS linux_target" and l: "OS_LINUX linux_target \<or> OS_MACOSX linux_target"
    by (simp_all add: linux_target_def)
  have w': "\<not> OS_WINDOWS macosx_target" and m: "OS_LINUX macosx_target \<or> OS_MACOSX macosx_target"
    by (simp_all add: macosx_target_def)
  from callApplication_posix_command [OF w l, of spawn_succeeds "''firefox''" "''-url http://example.com''"]
    callApplication_posix_command [OF w' m, of spawn_fails "''firefox''" "''-url http://example.com''"]
  show ?thesis using w l w' m by (simp add: c_str_def)
qed

text \<open>
  C2 as the specification words it, for every pair of strings, fails at an application
  string with a NUL character in it: \<^verbatim>\<open>system\<close> is given the characters before the NUL
  and nothing of the rest, the parameters and the ampersand included.
\<close>

theorem callApplication_posix_command_counterexample:
  "os_calls (callApplication linux_target spawn_succeeds [CHR ''l'', CHR ''s'', CHR 0x00, CHR ''x''] ''-l'')
     = [system ''ls'']
   \<and> os_calls (callApplication linux_target spawn_succeeds [CHR ''l'', CHR ''s'', CHR 0x00, CHR ''x''] ''-l'')
     \<noteq> [system ([CHR ''l'', CHR ''s'', CHR 0x00, CHR ''x''] @ '' '' @ ''-l'' @ '' &'')]"
  by (simp add: callApplication_def os_calls_def linux_target_def c_str_def Let_def)

text \<open>
  C3, as amended. On a Windows-family target (one that defines \<^verbatim>\<open>OS_WINDOWS\<close>) there is
  one process-creation call; the parameter string handed to it as the command line is the
  C string of one space followed by the parameters, and for every parameters string
  without a NUL character that is the space followed by all of the parameters.
\<close>

theorem callApplication_windows_parameters:
  assumes "OS_WINDOWS target"
  shows "map lpCommandLine
           (filter is_CreateProcess (os_calls (callApplication target os application parameters)))
           = [c_str ('' '' @ parameters)]
         \<and> (CHR 0x00 \<notin> set parameters
            \<longrightarrow> map lpCommandLine
                  (filter is_CreateProcess
                     (os_calls (callApplication target os application parameters)))
                = ['' '' @ parameters])"
proof -
  have calls: "map lpCommandLine
                 (filter is_CreateProcess
                    (os_calls (callApplication target os application parameters)))
                 = [c_str ('' '' @ parameters)]"
    using assms by (simp add: callApplication_def os_calls_def Let_def)
  have "c_str ('' '' @ parameters) = '' '' @ parameters" if "CHR 0x00 \<notin> set parameters"
    using that by (intro c_str_no_nul) simp
  with calls show ?thesis by simp
qed

theorem callApplication_windows_parameters_witness:
  "OS_WINDOWS windows_target \<and> CHR 0x00 \<notin> set ''http://example.com/a.zip''
   \<and> map lpCommandLine
        (filter is_CreateProcess
           (os_calls (callApplication windows_target spawn_fails ''flashget.exe'' ''http://example.com/a.zip'')))
       = ['' http://example.com/a.zip'']"
proof -
  have w: "OS_WINDOWS windows_target"
    by (simp add: windows_target_def)
  from callApplication_windows_parameters [OF w, of spawn_fails "''flashget.exe''" "''http://example.com/a.zip''"]
  show ?thesis using w by (simp add: c_str_def)
qed

text \<open>
  C3 as the specification words it, for every parameters string, fails at a parameters
  string with a NUL character in it: the command line given to the process-creation call
  is the space and the characters before the NUL.
\<close>

theorem callApplication_windows_parameters_counterexample:
  "map lpCommandLine
     (filter is_CreateProcess
        (os_calls (callApplication windows_target spawn_succeeds ''notepad.exe'' [CHR ''a'', CHR 0x00, CHR ''b''])))
     = ['' a'']
   \<and> map lpCommandLine
     (filter is_CreateProcess
        (os_calls (callApplication windows_target spawn_succeeds ''notepad.exe'' [CHR ''a'', CHR 0x00, CHR ''b''])))
     \<noteq> ['' '' @ [CHR ''a'', CHR 0x00, CHR ''b'']]"
  by (simp add: callApplication_def os_calls_def windows_target_def c_str_def Let_def)

text \<open>
  C4. Of the three messages only \<^verbatim>\<open>MSG_OK\<close> is ever returned: for every target, input
  and answer of the operating system the returned string is \<^verbatim>\<open>MSG_OK\<close> and is neither
  \<^verbatim>\<open>MSG_NO_COMMAND_PROCESSOR\<close> nor \<^verbatim>\<open>MSG_INVALID_COMMAND\<close>, and it is the same under
  any two operating systems, one that creates the process and one that fails to.
\<close>

theorem callApplication_only_ok:
  "returned (callApplication target os application parameters) = MSG_OK
   \<and> returned (callApplication target os application parameters) \<noteq> MSG_NO_COMMAND_PROCESSOR
   \<and> returned (callApplication target os application parameters) \<noteq> MSG_INVALID_COMMAND
   \<and> returned (callApplication target os application parameters)
       = returned (callApplication target os' application parameters)
   \<and> returned (callApplication target spawn_fails application parameters)
       = returned (callApplication target spawn_succeeds application parameters)"
  by (simp add: callApplication_def MSG_OK_def MSG_NO_COMMAND_PROCESSOR_def
        MSG_INVALID_COMMAND_def Let_def split: prod.split)

text \<open>
  C5, as amended. On the Windows target the call with application \<^verbatim>\<open>notepad.exe\<close> and
  parameters \<^verbatim>\<open>file.txt\<close> makes one call to the operating system, the process creation
  with the application name \<^verbatim>\<open>notepad.exe\<close> and, as a separate argument, the command
  line made of one space and \<^verbatim>\<open>file.txt\<close>. It returns the empty string.
\<close>

theorem callApplication_notepad:
  "os_calls (callApplication windows_target os ''notepad.exe'' ''file.txt'')
     = [CreateProcess ''notepad.exe'' '' file.txt'']
   \<and> returned (callApplication windows_target os ''notepad.exe'' ''file.txt'') = ''''"
  by (simp add: callApplication_def os_calls_def windows_target_def MSG_OK_def c_str_def Let_def)

text \<open>
  C5 as the specification words it fails: the command line of the process-creation call is
  not the string with the application name and two spaces in it, and no argument of the
  call is.
\<close>

theorem callApplication_notepad_counterexample:
  "\<not> (map lpCommandLine (filter is_CreateProcess
          (os_calls (callApplication windows_target spawn_succeeds ''notepad.exe'' ''file.txt'')))
        = [''notepad.exe  file.txt'']
      \<and> returned (callApplication windows_target spawn_succeeds ''notepad.exe'' ''file.txt'') = '''')
   \<and> map lpApplicationName (filter is_CreateProcess
          (os_calls (callApplication windows_target spawn_succeeds ''notepad.exe'' ''file.txt'')))
        \<noteq> [''notepad.exe  file.txt'']"
  by (simp add: callApplication_def os_calls_def windows_target_def c_str_def Let_def)

text \<open>
  C9. The returned string does not depend on anything: two calls, with any two
  applications, parameters, targets and operating systems, return equal strings.
\<close>

theorem callApplication_return_constant:
  "returned (callApplication target1 os1 a1 p1) = returned (callApplication target2 os2 a2 p2)"
  by (simp add: callApplication_def Let_def split: prod.split)

section \<open>Theorems about the NPAPI entry points\<close>

text \<open>
  C6. When \<^verbatim>\<open>value\<close> points to a live cell: for \<^verbatim>\<open>NPPVpluginNameString\<close> the call
  stores the name "Simple Get Plugin" in that cell, changes no other, and returns
  \<^verbatim>\<open>NPERR_NO_ERROR\<close>; for \<^verbatim>\<open>NPPVpluginDescriptionString\<close> it does the same with the
  description; for every other variable it returns \<^verbatim>\<open>NPERR_INVALID_PARAM\<close>.
\<close>

theorem NP_GetValue_metadata:
  assumes "value \<in> dom mem"
  shows "NP_GetValue instance NPPVpluginNameString value mem
           = Some (NPERR_NO_ERROR, mem(value \<mapsto> ''Simple Get Plugin''))
         \<and> NP_GetValue instance NPPVpluginDescriptionString value mem
           = Some (NPERR_NO_ERROR,
                   mem(value \<mapsto> ''Connects the Simple Get extesion to the download managers''))
         \<and> (variable \<noteq> NPPVpluginNameString \<and> variable \<noteq> NPPVpluginDescriptionString
            \<longrightarrow> map_option fst (NP_GetValue instance variable value mem)
                = Some NPERR_INVALID_PARAM)"
  using assms by (cases variable) (simp_all add: NP_GetValue_def store_string_def)

theorem NP_GetValue_metadata_witness:
  "(100::nat) \<in> dom [100 \<mapsto> ''abc'']
   \<and> NP_GetValue 7 NPPVpluginNameString 100 [100 \<mapsto> ''abc'']
       = Some (NPERR_NO_ERROR, [100 \<mapsto> ''Simple Get Plugin''])
   \<and> NP_GetValue 7 NPPVpluginDescriptionString 100 [100 \<mapsto> ''abc'']
       = Some (NPERR_NO_ERROR,
               [100 \<mapsto> ''Connects the Simple Get extesion to the download managers''])
   \<and> NPPVother 14 \<noteq> NPPVpluginNameString \<and> NPPVother 14 \<noteq> NPPVpluginDescriptionString
   \<and> map_option fst (NP_GetValue 7 (NPPVother 14) 100 [100 \<mapsto> ''abc''])
       = Some NPERR_INVALID_PARAM"
proof -
  have d: "(100::nat) \<in> dom [100 \<mapsto> ''abc'']"
    by simp
  from NP_GetValue_metadata [OF d, of 7 "NPPVother 14"]
  show ?thesis using d by simp
qed

text \<open>
  C7. \<^verbatim>\<open>NP_GetMIMEDescription\<close> is one fixed string, and the MIME type it reports, the
  segment before the first \<^verbatim>\<open>::\<close>, is \<^verbatim>\<open>application/x-simplegetplugin\<close>; that segment
  has no colon in it, so it is also what stands before the first colon.
\<close>

theorem NP_GetMIMEDescription_mime_type:
  "NP_GetMIMEDescription
     = ''application/x-simplegetplugin'' @ ''::''
       @ ''Connects the Simple Get extesion to the download managers''
   \<and> segment_before_separator NP_GetMIMEDescription = ''application/x-simplegetplugin''
   \<and> takeWhile (\<lambda>c. c \<noteq> CHR '':'') NP_GetMIMEDescription = ''application/x-simplegetplugin''"
  by (simp add: NP_GetMIMEDescription_def)

text \<open>
  C8. With a variable other than \<^verbatim>\<open>NPPVpluginNameString\<close> and
  \<^verbatim>\<open>NPPVpluginDescriptionString\<close> the call returns \<^verbatim>\<open>NPERR_INVALID_PARAM\<close> and the
  memory after it is the memory before it; nothing is stored through \<^verbatim>\<open>value\<close>, which
  need not even point to a live cell.
\<close>

theorem NP_GetValue_other_frame:
  assumes "variable \<noteq> NPPVpluginNameString" and "variable \<noteq> NPPVpluginDescriptionString"
  shows "NP_GetValue instance variable value mem = Some (NPERR_INVALID_PARAM, mem)"
  using assms by (cases variable) (simp_all add: NP_GetValue_def)

theorem NP_GetValue_other_frame_witness:
  "NPPVother 3 \<noteq> NPPVpluginNameString \<and> NPPVother 3 \<noteq> NPPVpluginDescriptionString
   \<and> NP_GetValue 7 (NPPVother 3) 100 [100 \<mapsto> ''abc'']
       = Some (NPERR_INVALID_PARAM, [100 \<mapsto> ''abc''])
   \<and> NP_GetValue 7 (NPPVother 3) 0 Map.empty = Some (NPERR_INVALID_PARAM, Map.empty)"
proof -
  have n: "NPPVother 3 \<noteq> NPPVpluginNameString" and d: "NPPVother 3 \<noteq> NPPVpluginDescriptionString"
    by simp_all
  from NP_GetValue_other_frame [OF n d, of 7 100 "[100 \<mapsto> ''abc'']"]
    NP_GetValue_other_frame [OF n d, of 7 0 Map.empty]
  show ?thesis by simp
qed

section \<open>Theorems about Complex\<close>

text \<open>
  C10. For every Complex \<open>c\<close> and every float \<open>v\<close>: after \<^verbatim>\<open>set_real(v)\<close>, \<^verbatim>\<open>real()\<close>
  is \<open>v\<close> and \<^verbatim>\<open>imaginary()\<close> is what it was; after \<^verbatim>\<open>set_imaginary(v)\<close>,
  \<^verbatim>\<open>imaginary()\<close> is \<open>v\<close> and \<^verbatim>\<open>real()\<close> is what it was; the default constructor gives
  zero for both.
\<close>

theorem Complex_accessors:
  "real (set_real c v) = v \<and> imaginary (set_real c v) = imaginary c
   \<and> imaginary (set_imaginary c v) = v \<and> real (set_imaginary c v) = real c
   \<and> real Complex_default = 0 \<and> imaginary Complex_default = 0"
  by (simp add: real_def imaginary_def set_real_def set_imaginary_def Complex_default_def)

end
